theory Spec2Isabelle
  imports Main "HOL-Library.Sublist"
begin

section \<open>JavaScript strings and truthiness\<close>

text \<open>
  Strings are \<^typ>\<open>string\<close>. A value that may be \<^verbatim>\<open>undefined\<close> or \<^verbatim>\<open>null\<close> is an
  \<^typ>\<open>string option\<close>. In a condition JavaScript takes \<^verbatim>\<open>undefined\<close>, \<^verbatim>\<open>null\<close> and the
  empty string as false and every other string as true; \<^verbatim>\<open>a || b\<close> is \<^verbatim>\<open>a\<close> when
  \<^verbatim>\<open>a\<close> is true and \<^verbatim>\<open>b\<close> otherwise.
\<close>

definition truthy :: "string option \<Rightarrow> bool" where
  "truthy v = (case v of None \<Rightarrow> False | Some s \<Rightarrow> s \<noteq> [])"

definition or_else :: "string option \<Rightarrow> string \<Rightarrow> string" where
  "or_else v d = (case v of None \<Rightarrow> d | Some s \<Rightarrow> if s \<noteq> [] then s else d)"

text \<open>
  \<^verbatim>\<open>String.prototype.trim\<close> removes WhiteSpace and LineTerminator code points from both
  ends. Of those, the ones a \<^typ>\<open>char\<close> can hold are TAB, LF, VT, FF, CR, SPACE and
  NO-BREAK SPACE (0xA0).
\<close>

definition is_whitespace :: "char \<Rightarrow> bool" where
  "is_whitespace c = (of_char c \<in> {9, 10, 11, 12, 13, 32, 160 :: nat})"

definition trim :: "string \<Rightarrow> string" where
  "trim s = rev (dropWhile is_whitespace (rev (dropWhile is_whitespace s)))"

text \<open>\<^verbatim>\<open>s.startsWith(p)\<close> and \<^verbatim>\<open>s.includes(p)\<close> (\<open>includes\<close> is a keyword of Isabelle).\<close>

definition startsWith :: "string \<Rightarrow> string \<Rightarrow> bool" where
  "startsWith s p = prefix p s"

definition includes_str :: "string \<Rightarrow> string \<Rightarrow> bool" where
  "includes_str s p = sublist p s"

text \<open>
  \<^verbatim>\<open>s.replace(/\/$/, '')\<close>: the pattern has no \<^verbatim>\<open>m\<close> flag, so \<^verbatim>\<open>$\<close> is the end of the
  string, and one final slash is removed when there is one.
\<close>

definition strip_trailing_slash :: "string \<Rightarrow> string" where
  "strip_trailing_slash s = (if s \<noteq> [] \<and> last s = CHR ''/'' then butlast s else s)"

text \<open>The decimal text of an integer, as a template literal prints a note identifier.\<close>

definition digit_char :: "nat \<Rightarrow> char" where
  "digit_char d = char_of (of_char CHR ''0'' + d)"

fun digits :: "nat \<Rightarrow> string" where
  "digits n = (if n < 10 then [digit_char n] else digits (n div 10) @ [digit_char (n mod 10)])"

definition show_int :: "int \<Rightarrow> string" where
  "show_int i = (if i < 0 then CHR ''-'' # digits (nat (- i)) else digits (nat i))"

section \<open>Data model (services/api)\<close>

record User =
  u_id :: string
  u_email :: string

text \<open>
  \<^verbatim>\<open>Note.id\<close> is a JavaScript number that comes from a JSON body, never NaN, so
  \<^verbatim>\<open>===\<close> on identifiers is equality; identifiers are integers here. The field is called
  \<open>note_id\<close> because \<open>id\<close> is the identity function of HOL.
\<close>

record Note =
  note_id :: int
  title :: string
  content :: string
  image_url :: "string option"
  summary :: "string option"
  user_id :: string
  created_at :: string
  updated_at :: string

record NoteCreate =
  nc_title :: string
  nc_content :: string
  nc_image_url :: "string option"

text \<open>\<^verbatim>\<open>Partial<NoteCreate>\<close>, the argument of \<^verbatim>\<open>notesAPI.update\<close>.\<close>

record note_partial =
  np_title :: "string option"
  np_content :: "string option"
  np_image_url :: "string option"

text \<open>
  The body of a login or register answer. \<^verbatim>\<open>TokenResponse\<close> declares the first three
  fields; the login page also reads \<^verbatim>\<open>requires_confirmation\<close> (only its truth value) and
  \<^verbatim>\<open>message\<close> through a cast, so every field may be absent.
\<close>

record auth_response =
  access_token :: "string option"
  token_type :: "string option"
  user :: "User option"
  requires_confirmation :: bool
  message :: "string option"

text \<open>
  What a rejected axios call carries, as far as the handlers read it:
  \<^verbatim>\<open>error.response?.status\<close>, \<^verbatim>\<open>error.response?.data?.detail\<close> and \<^verbatim>\<open>error.message\<close>.
  A call that got no response at all has no status and no detail.
\<close>

record axios_error =
  err_status :: "nat option"
  err_detail :: "string option"
  err_message :: string

text \<open>A \<^verbatim>\<open>File\<close> picked in the form, by its bytes.\<close>

type_synonym File = string

datatype payload =
    NoBody
  | Credentials string string
  | NoteBody NoteCreate
  | PartialBody note_partial
  | FormFile File

record request =
  req_method :: string
  req_url :: string
  req_headers :: "string \<rightharpoonup> string"
  req_body :: payload

section \<open>The browser\<close>

text \<open>
  The globals the code touches: \<^verbatim>\<open>localStorage\<close>, \<^verbatim>\<open>window.location.href\<close>, the
  \<^verbatim>\<open>alert\<close> dialogs shown so far (oldest first) and the requests that have left the HTTP
  adapter (oldest first). Console output is not modelled.
\<close>

record browser =
  localStorage :: "string \<rightharpoonup> string"
  location_href :: string
  alerts :: "string list"
  sent :: "request list"

definition alert :: "string \<Rightarrow> browser \<Rightarrow> browser" where
  "alert msg b = b\<lparr>alerts := alerts b @ [msg]\<rparr>"

definition removeItem :: "string \<Rightarrow> browser \<Rightarrow> browser" where
  "removeItem k b = b\<lparr>localStorage := (localStorage b)(k := None)\<rparr>"

section \<open>HTTP adapter (services/api)\<close>

subsection \<open>Base URL\<close>

text \<open>
  \<^verbatim>\<open>getApiBaseURL\<close>; its two arguments are \<^verbatim>\<open>import.meta.env.VITE_API_URL\<close> (absent when
  not configured) and \<^verbatim>\<open>import.meta.env.PROD\<close>.
\<close>

definition getApiBaseURL :: "string option \<Rightarrow> bool \<Rightarrow> string" where
  "getApiBaseURL apiUrl is_prod =
     (case apiUrl of
        None \<Rightarrow> ''/api''
      | Some a \<Rightarrow>
          if a \<noteq> [] \<and> trim a \<noteq> [] then
            (let trimmed = strip_trailing_slash (trim a) in
             if is_prod \<and> includes_str trimmed ''localhost'' then ''/api''
             else if startsWith trimmed ''http://'' \<or> startsWith trimmed ''https://''
                     \<or> startsWith trimmed ''/'' then trimmed
             else ''/api'')
          else ''/api'')"

subsection \<open>Interceptors\<close>

text \<open>
  The request interceptor: it reads \<^verbatim>\<open>localStorage.getItem('token')\<close> and, when that is
  true as a condition, sets the \<^verbatim>\<open>Authorization\<close> header of the request.
\<close>

definition request_interceptor :: "browser \<Rightarrow> request \<Rightarrow> request" where
  "request_interceptor b config =
     (case localStorage b ''token'' of
        None \<Rightarrow> config
      | Some token \<Rightarrow>
          if token \<noteq> [] then
            config\<lparr>req_headers := (req_headers config)(''Authorization'' \<mapsto> ''Bearer '' @ token)\<rparr>
          else config)"

text \<open>
  The response interceptor leaves a fulfilled response alone. On a rejected one it clears the
  session and sets the location when the status is 401, and rejects again with the same error
  in every case.
\<close>

definition response_rejected :: "axios_error \<Rightarrow> browser \<Rightarrow> browser" where
  "response_rejected e b =
     (if err_status e = Some 401 then
        (removeItem ''user'' (removeItem ''token'' b))\<lparr>location_href := ''/login''\<rparr>
      else b)"

text \<open>
  One call through the \<^verbatim>\<open>api\<close> instance, in its two halves. The request that leaves is
  the configuration after the request interceptor. What the transport gives back for it is
  \<open>Inr\<close> a response body (status 2xx) or \<open>Inl\<close> the axios error; it is an argument of every
  handler that awaits a call.
\<close>

definition api_send :: "request \<Rightarrow> browser \<Rightarrow> browser" where
  "api_send config b = b\<lparr>sent := sent b @ [request_interceptor b config]\<rparr>"

definition api_receive :: "axios_error + 'a \<Rightarrow> browser \<Rightarrow> (axios_error + 'a) \<times> browser" where
  "api_receive outcome b =
     (case outcome of
        Inr r \<Rightarrow> (Inr r, b)
      | Inl e \<Rightarrow> (Inl e, response_rejected e b))"

definition api_call :: "request \<Rightarrow> axios_error + 'a \<Rightarrow> browser \<Rightarrow> (axios_error + 'a) \<times> browser" where
  "api_call config outcome b = api_receive outcome (api_send config b)"

subsection \<open>Facade\<close>

text \<open>
  The headers of the instance, \<^verbatim>\<open>Content-Type: application/json\<close>, with the headers a call
  passes laid over them. The base URL is prefixed by axios and is not part of \<open>req_url\<close>.
\<close>

definition json_headers :: "string \<rightharpoonup> string" where
  "json_headers = [''Content-Type'' \<mapsto> ''application/json'']"

definition mk_request :: "string \<Rightarrow> string \<Rightarrow> payload \<Rightarrow> request" where
  "mk_request m u p = \<lparr>req_method = m, req_url = u, req_headers = json_headers, req_body = p\<rparr>"

definition register_request :: "string \<Rightarrow> string \<Rightarrow> request" where
  "register_request em pw = mk_request ''POST'' ''/auth/register'' (Credentials em pw)"

definition login_request :: "string \<Rightarrow> string \<Rightarrow> request" where
  "login_request em pw = mk_request ''POST'' ''/auth/login'' (Credentials em pw)"

definition getAll_request :: request where
  "getAll_request = mk_request ''GET'' ''/notes'' NoBody"

definition getOne_request :: "int \<Rightarrow> request" where
  "getOne_request i = mk_request ''GET'' (''/notes/'' @ show_int i) NoBody"

definition create_request :: "NoteCreate \<Rightarrow> request" where
  "create_request n = mk_request ''POST'' ''/notes'' (NoteBody n)"

definition update_request :: "int \<Rightarrow> note_partial \<Rightarrow> request" where
  "update_request i n = mk_request ''PUT'' (''/notes/'' @ show_int i) (PartialBody n)"

definition delete_request :: "int \<Rightarrow> request" where
  "delete_request i = mk_request ''DELETE'' (''/notes/'' @ show_int i) NoBody"

definition summarize_request :: "int \<Rightarrow> request" where
  "summarize_request i = mk_request ''POST'' (''/notes/'' @ show_int i @ ''/summarize'') NoBody"

definition uploadImage_request :: "File \<Rightarrow> request" where
  "uploadImage_request f =
     (mk_request ''POST'' ''/upload/image'' (FormFile f))
       \<lparr>req_headers := json_headers(''Content-Type'' \<mapsto> ''multipart/form-data'')\<rparr>"

text \<open>The requests the facade can issue.\<close>

datatype api_op =
    Register string string
  | Login string string
  | GetAll
  | GetOne int
  | Create NoteCreate
  | Update int note_partial
  | Delete int
  | Summarize int
  | UploadImage File

fun request_of :: "api_op \<Rightarrow> request" where
  "request_of (Register em pw) = register_request em pw"
| "request_of (Login em pw) = login_request em pw"
| "request_of GetAll = getAll_request"
| "request_of (GetOne i) = getOne_request i"
| "request_of (Create n) = create_request n"
| "request_of (Update i n) = update_request i n"
| "request_of (Delete i) = delete_request i"
| "request_of (Summarize i) = summarize_request i"
| "request_of (UploadImage f) = uploadImage_request f"

section \<open>Login page (pages/Login)\<close>

record login_state =
  email :: string
  password :: string
  error :: string
  success :: string
  loading :: bool
  isRegister :: bool

definition login_initial :: login_state where
  "login_initial =
     \<lparr>email = [], password = [], error = [], success = [], loading = False, isRegister = False\<rparr>"

text \<open>
  What a handler of the page does to the outside, in program order: the calls of the state
  setters, and the calls of \<^verbatim>\<open>login\<close> (from \<^verbatim>\<open>useAuth\<close>) and \<^verbatim>\<open>navigate\<close> (from
  \<^verbatim>\<open>useNavigate\<close>), whose code is outside these sources. The state after the handler is the
  state before it with the setter calls applied in order.
\<close>

datatype login_action =
    SetEmail string
  | SetPassword string
  | SetError string
  | SetSuccess string
  | SetLoading bool
  | SetIsRegister bool
  | AuthLogin "string option" "User option"
  | Navigate string

fun apply_action :: "login_action \<Rightarrow> login_state \<Rightarrow> login_state" where
  "apply_action (SetEmail v) st = st\<lparr>email := v\<rparr>"
| "apply_action (SetPassword v) st = st\<lparr>password := v\<rparr>"
| "apply_action (SetError v) st = st\<lparr>error := v\<rparr>"
| "apply_action (SetSuccess v) st = st\<lparr>success := v\<rparr>"
| "apply_action (SetLoading v) st = st\<lparr>loading := v\<rparr>"
| "apply_action (SetIsRegister v) st = st\<lparr>isRegister := v\<rparr>"
| "apply_action (AuthLogin t u) st = st"
| "apply_action (Navigate p) st = st"

fun run_actions :: "login_action list \<Rightarrow> login_state \<Rightarrow> login_state" where
  "run_actions [] st = st"
| "run_actions (a # as) st = run_actions as (apply_action a st)"

text \<open>
  The query of the location, as the list of its pairs; \<^verbatim>\<open>searchParams.get(k)\<close> is the value of
  the first pair named \<open>k\<close>, or \<^verbatim>\<open>null\<close>.
\<close>

type_synonym query = "(string \<times> string) list"

definition searchParams_get :: "query \<Rightarrow> string \<Rightarrow> string option" where
  "searchParams_get q k = map_of q k"

text \<open>The effect that runs when the page is mounted and when the query changes.\<close>

definition Login_useEffect :: "query \<Rightarrow> login_action list" where
  "Login_useEffect q =
     (let confirmed = searchParams_get q ''confirmed'';
          token = searchParams_get q ''token_hash'';
          type = searchParams_get q ''type''
      in if confirmed = Some ''true'' \<or> searchParams_get q ''success'' = Some ''true'' then
           [SetSuccess ''Email confirmed successfully! You can now log in.'', SetError []]
         else if truthy (searchParams_get q ''error'') then
           [SetError (''Confirmation failed: '' @ or_else (searchParams_get q ''error'') [])]
         else if truthy token \<and> truthy type then
           [SetSuccess ''Processing email confirmation...'']
         else [])"

text \<open>
  \<^verbatim>\<open>handleSubmit\<close> of the login page. The body of a fulfilled call is taken to be a JSON
  object, as the type of the facade says.
\<close>

definition Login_handleSubmit ::
  "login_state \<Rightarrow> axios_error + auth_response \<Rightarrow> browser \<Rightarrow> login_action list \<times> browser" where
  "Login_handleSubmit st outcome b =
     (let config = (if isRegister st then register_request (email st) (password st)
                    else login_request (email st) (password st));
          (r, b') = api_call config outcome b
      in ([SetError [], SetLoading True] @
          (case r of
             Inr response \<Rightarrow>
               if requires_confirmation response then
                 [SetError (or_else (message response)
                              ''Please check your email to confirm your account.'')]
               else [AuthLogin (access_token response) (user response), Navigate ''/notes'']
           | Inl err \<Rightarrow>
               [SetError (or_else (err_detail err)
                            (or_else (Some (err_message err)) ''An error occurred''))]) @
          [SetLoading False], b'))"

definition Login_toggle :: "login_state \<Rightarrow> login_action list" where
  "Login_toggle st = [SetIsRegister (\<not> isRegister st), SetError []]"

datatype login_event =
    SearchParams query
  | Submit "axios_error + auth_response"
  | ToggleMode
  | ChangeEmail string
  | ChangePassword string

fun login_handler :: "login_event \<Rightarrow> login_state \<Rightarrow> browser \<Rightarrow> login_action list \<times> browser" where
  "login_handler (SearchParams q) st b = (Login_useEffect q, b)"
| "login_handler (Submit outcome) st b = Login_handleSubmit st outcome b"
| "login_handler ToggleMode st b = (Login_toggle st, b)"
| "login_handler (ChangeEmail v) st b = ([SetEmail v], b)"
| "login_handler (ChangePassword v) st b = ([SetPassword v], b)"

definition login_step :: "login_event \<Rightarrow> login_state \<times> browser \<Rightarrow> login_state \<times> browser" where
  "login_step ev sb =
     (case login_handler ev (fst sb) (snd sb) of (acts, b') \<Rightarrow> (run_actions acts (fst sb), b'))"

fun login_run :: "login_event list \<Rightarrow> login_state \<times> browser \<Rightarrow> login_state \<times> browser" where
  "login_run [] sb = sb"
| "login_run (ev # evs) sb = login_run evs (login_step ev sb)"

text \<open>The two banners of the page: each is rendered when its text is not empty.\<close>

definition shows_error :: "login_state \<Rightarrow> bool" where
  "shows_error st = (error st \<noteq> [])"

definition shows_success :: "login_state \<Rightarrow> bool" where
  "shows_success st = (success st \<noteq> [])"

text \<open>Whether a handler called a setter of a banner with a text that is not empty.\<close>

fun sets_error :: "login_action \<Rightarrow> bool" where
  "sets_error (SetError v) = (v \<noteq> [])"
| "sets_error _ = False"

fun sets_success :: "login_action \<Rightarrow> bool" where
  "sets_success (SetSuccess v) = (v \<noteq> [])"
| "sets_success _ = False"

fun calls_session :: "login_action \<Rightarrow> bool" where
  "calls_session (AuthLogin t u) = True"
| "calls_session (Navigate p) = True"
| "calls_session _ = False"

section \<open>Notes page (pages/Notes)\<close>

text \<open>The list \<^verbatim>\<open>notes\<close> is the field \<open>note_list\<close> (\<open>notes\<close> is a keyword of Isabelle).\<close>

record notes_state =
  note_list :: "Note list"
  notes_loading :: bool
  showForm :: bool
  selectedNote :: "Note option"
  summarizing :: "int option"

definition notes_initial :: notes_state where
  "notes_initial =
     \<lparr>note_list = [], notes_loading = True, showForm = False, selectedNote = None, summarizing = None\<rparr>"

text \<open>
  A handler runs from its call to its end on the state and the browser, with the outcome of
  each call it awaits as an argument. \<^verbatim>\<open>loadNotes()\<close> inside the create and delete
  handlers is started without \<^verbatim>\<open>await\<close>; it writes only the list and the loading flag, which
  the rest of those handlers do not touch, so it is run in place.
\<close>

definition loadNotes ::
  "axios_error + Note list \<Rightarrow> notes_state \<times> browser \<Rightarrow> notes_state \<times> browser" where
  "loadNotes outcome sb =
     (let st = (fst sb)\<lparr>notes_loading := True\<rparr>;
          (r, b) = api_call getAll_request outcome (snd sb)
      in case r of
           Inr data \<Rightarrow> (st\<lparr>note_list := data, notes_loading := False\<rparr>, b)
         | Inl err \<Rightarrow>
             (let errorMessage =
                    or_else (err_detail err) (or_else (Some (err_message err)) ''Failed to load notes'')
              in (st\<lparr>notes_loading := False\<rparr>,
                  if err_status err \<noteq> Some 401
                  then alert (''Failed to load notes: '' @ errorMessage) b else b)))"

definition handleCreateNote ::
  "axios_error + Note \<Rightarrow> axios_error + Note list \<Rightarrow> NoteCreate \<Rightarrow>
   notes_state \<times> browser \<Rightarrow> notes_state \<times> browser" where
  "handleCreateNote created loaded noteData sb =
     (case api_call (create_request noteData) created (snd sb) of
        (Inr n, b) \<Rightarrow> loadNotes loaded ((fst sb)\<lparr>showForm := False\<rparr>, b)
      | (Inl err, b) \<Rightarrow> (fst sb, alert (or_else (err_detail err) ''Failed to create note'') b))"

text \<open>The first argument is the answer to the \<^verbatim>\<open>confirm\<close> dialog.\<close>

definition handleDeleteNote ::
  "bool \<Rightarrow> axios_error + unit \<Rightarrow> axios_error + Note list \<Rightarrow> int \<Rightarrow>
   notes_state \<times> browser \<Rightarrow> notes_state \<times> browser" where
  "handleDeleteNote confirmed deleted loaded i sb =
     (if \<not> confirmed then sb
      else case api_call (delete_request i) deleted (snd sb) of
             (Inr u, b) \<Rightarrow>
               (case loadNotes loaded (fst sb, b) of
                  (st, b') \<Rightarrow>
                    (if map_option note_id (selectedNote (fst sb)) = Some i
                     then st\<lparr>selectedNote := None\<rparr> else st, b'))
           | (Inl err, b) \<Rightarrow> (fst sb, alert (or_else (err_detail err) ''Failed to delete note'') b))"

text \<open>
  \<^verbatim>\<open>handleSummarize\<close> in its two halves: up to the \<^verbatim>\<open>await\<close>, and from the answer on. The
  second half reads \<^verbatim>\<open>notes\<close> and \<^verbatim>\<open>selectedNote\<close> as the handler captured them when it
  was called.
\<close>

record summarize_call =
  sc_noteId :: int
  sc_notes :: "Note list"
  sc_selectedNote :: "Note option"

definition handleSummarize_begin ::
  "int \<Rightarrow> notes_state \<times> browser \<Rightarrow> summarize_call \<times> notes_state \<times> browser" where
  "handleSummarize_begin noteId sb =
     (\<lparr>sc_noteId = noteId, sc_notes = note_list (fst sb), sc_selectedNote = selectedNote (fst sb)\<rparr>,
      (fst sb)\<lparr>summarizing := Some noteId\<rparr>,
      api_send (summarize_request noteId) (snd sb))"

definition handleSummarize_complete ::
  "summarize_call \<Rightarrow> axios_error + Note \<Rightarrow> notes_state \<times> browser \<Rightarrow> notes_state \<times> browser" where
  "handleSummarize_complete c outcome sb =
     (case api_receive outcome (snd sb) of
        (Inr updatedNote, b) \<Rightarrow>
          (let st1 = (fst sb)\<lparr>note_list :=
                        map (\<lambda>n. if note_id n = sc_noteId c then updatedNote else n) (sc_notes c)\<rparr>;
               st2 = (if map_option note_id (sc_selectedNote c) = Some (sc_noteId c)
                      then st1\<lparr>selectedNote := Some updatedNote\<rparr> else st1)
           in (st2\<lparr>summarizing := None\<rparr>, b))
      | (Inl err, b) \<Rightarrow>
          ((fst sb)\<lparr>summarizing := None\<rparr>,
           alert (or_else (err_detail err) ''Failed to generate summary'') b))"

text \<open>The whole handler, with no other event between the call and the answer.\<close>

definition handleSummarize ::
  "int \<Rightarrow> axios_error + Note \<Rightarrow> notes_state \<times> browser \<Rightarrow> notes_state \<times> browser" where
  "handleSummarize noteId outcome sb =
     (case handleSummarize_begin noteId sb of
        (c, st, b) \<Rightarrow> handleSummarize_complete c outcome (st, b))"

text \<open>
  The summarize button is drawn for the selected note, calls \<^verbatim>\<open>handleSummarize\<close> with that
  note's identifier, and is disabled when \<^verbatim>\<open>summarizing === selectedNote.id\<close>.
\<close>

definition summarize_disabled :: "notes_state \<Rightarrow> bool" where
  "summarize_disabled st =
     (case selectedNote st of None \<Rightarrow> False | Some n \<Rightarrow> summarizing st = Some (note_id n))"

text \<open>
  The button is on the screen when the page is past its loading view and a note is selected;
  it can be pressed when, besides, it is not disabled.
\<close>

definition summarize_enabled :: "notes_state \<Rightarrow> bool" where
  "summarize_enabled st =
     (\<not> notes_loading st \<and> selectedNote st \<noteq> None \<and> \<not> summarize_disabled st)"

text \<open>
  The events of the page, with the summarize requests that are in flight: each carries what
  its handler captured at the call. A click reaches a handler only when its control is on
  the screen and not disabled: a card of the list, the buttons of the header, the form, and
  the delete and summarize buttons of the selected note. A summarize answer completes the
  call at the given position. The other handlers run from call to end, as above.
\<close>

type_synonym page_config = "notes_state \<times> browser \<times> summarize_call list"

datatype page_event =
    SelectNote Note
  | ToggleForm
  | LoadNotes "axios_error + Note list"
  | CreateNote "axios_error + Note" "axios_error + Note list" NoteCreate
  | ClickDelete bool "axios_error + unit" "axios_error + Note list"
  | ClickSummarize
  | AnswerSummarize nat "axios_error + Note"

fun page_step :: "page_event \<Rightarrow> page_config \<Rightarrow> page_config" where
  "page_step (SelectNote n) (st, b, ps) =
     (if notes_loading st \<or> n \<notin> set (note_list st) then (st, b, ps)
      else (st\<lparr>selectedNote := Some n\<rparr>, b, ps))"
| "page_step ToggleForm (st, b, ps) =
     (if notes_loading st then (st, b, ps) else (st\<lparr>showForm := \<not> showForm st\<rparr>, b, ps))"
| "page_step (LoadNotes loaded) (st, b, ps) =
     (case loadNotes loaded (st, b) of (st', b') \<Rightarrow> (st', b', ps))"
| "page_step (CreateNote created loaded noteData) (st, b, ps) =
     (if notes_loading st \<or> \<not> showForm st then (st, b, ps)
      else case handleCreateNote created loaded noteData (st, b) of (st', b') \<Rightarrow> (st', b', ps))"
| "page_step (ClickDelete confirmed deleted loaded) (st, b, ps) =
     (case selectedNote st of
        None \<Rightarrow> (st, b, ps)
      | Some n \<Rightarrow>
          if notes_loading st then (st, b, ps)
          else case handleDeleteNote confirmed deleted loaded (note_id n) (st, b) of
                 (st', b') \<Rightarrow> (st', b', ps))"
| "page_step ClickSummarize (st, b, ps) =
     (case selectedNote st of
        None \<Rightarrow> (st, b, ps)
      | Some n \<Rightarrow>
          if notes_loading st \<or> summarize_disabled st then (st, b, ps)
          else case handleSummarize_begin (note_id n) (st, b) of
                 (c, st', b') \<Rightarrow> (st', b', ps @ [c]))"
| "page_step (AnswerSummarize k outcome) (st, b, ps) =
     (if k < length ps
      then case handleSummarize_complete (ps ! k) outcome (st, b) of
             (st', b') \<Rightarrow> (st', b', take k ps @ drop (Suc k) ps)
      else (st, b, ps))"

fun page_run :: "page_event list \<Rightarrow> page_config \<Rightarrow> page_config" where
  "page_run [] cfg = cfg"
| "page_run (ev # evs) cfg = page_run evs (page_step ev cfg)"

text \<open>Whether a summarize request for the note with this identifier is in flight.\<close>

definition in_flight :: "page_config \<Rightarrow> int \<Rightarrow> bool" where
  "in_flight cfg i = (i \<in> set (map sc_noteId (snd (snd cfg))))"

text \<open>A run in which summarize is clicked only when no summarize request is in flight.\<close>

fun no_overlap :: "page_event list \<Rightarrow> page_config \<Rightarrow> bool" where
  "no_overlap [] cfg = True"
| "no_overlap (ev # evs) cfg =
     ((ev = ClickSummarize \<longrightarrow> snd (snd cfg) = []) \<and> no_overlap evs (page_step ev cfg))"

text \<open>The indicator agrees with the requests in flight, of which there is at most one.\<close>

definition indicator_ok :: "page_config \<Rightarrow> bool" where
  "indicator_ok cfg =
     (case snd (snd cfg) of
        [] \<Rightarrow> summarizing (fst cfg) = None
      | [c] \<Rightarrow> summarizing (fst cfg) = Some (sc_noteId c)
      | _ \<Rightarrow> False)"

text \<open>
  Modelled from the spec: the summarize endpoint of the remote API, whose code is outside
  these sources. The spec (4.3) has \<^verbatim>\<open>summarizeNote(id)\<close> answer with the Note with its
  summary populated: the stored note with the generated text as its summary.
\<close>

definition summarize_endpoint :: "Note \<Rightarrow> string \<Rightarrow> Note" where
  "summarize_endpoint n s = n\<lparr>summary := Some s\<rparr>"

section \<open>Note form (components/NoteForm)\<close>

record form_state =
  form_title :: string
  form_content :: string
  imageUrl :: string
  uploading :: bool

text \<open>The initial state, from the optional \<^verbatim>\<open>initialData\<close> property.\<close>

definition NoteForm_initial :: "note_partial option \<Rightarrow> form_state" where
  "NoteForm_initial initialData =
     \<lparr>form_title = or_else (Option.bind initialData np_title) [],
      form_content = or_else (Option.bind initialData np_content) [],
      imageUrl = or_else (Option.bind initialData np_image_url) [],
      uploading = False\<rparr>"

definition handleImageUpload ::
  "File option \<Rightarrow> axios_error + string \<Rightarrow> form_state \<times> browser \<Rightarrow> form_state \<times> browser" where
  "handleImageUpload chosen outcome fb =
     (case chosen of
        None \<Rightarrow> fb
      | Some f \<Rightarrow>
          (case api_call (uploadImage_request f) outcome (snd fb) of
             (Inr u, b) \<Rightarrow> ((fst fb)\<lparr>imageUrl := u, uploading := False\<rparr>, b)
           | (Inl err, b) \<Rightarrow>
               ((fst fb)\<lparr>uploading := False\<rparr>,
                alert (or_else (err_detail err) ''Failed to upload image'') b)))"

text \<open>
  \<^verbatim>\<open>handleSubmit\<close> of the form. \<open>onSubmit\<close> is the handler the parent supplied; it works on
  the parent's state and the browser, and its promise is fulfilled (\<open>Inr\<close>) or rejected
  (\<open>Inl\<close>). A rejection leaves \<^verbatim>\<open>handleSubmit\<close> at the \<^verbatim>\<open>await\<close>.
\<close>

definition normalized_draft :: "form_state \<Rightarrow> NoteCreate" where
  "normalized_draft f =
     \<lparr>nc_title = trim (form_title f), nc_content = trim (form_content f),
      nc_image_url = (if imageUrl f \<noteq> [] then Some (imageUrl f) else None)\<rparr>"

definition NoteForm_handleSubmit ::
  "note_partial option \<Rightarrow> (NoteCreate \<Rightarrow> 'p \<times> browser \<Rightarrow> ('e + unit) \<times> 'p \<times> browser) \<Rightarrow>
   form_state \<Rightarrow> 'p \<times> browser \<Rightarrow> ('e + unit) \<times> form_state \<times> 'p \<times> browser" where
  "NoteForm_handleSubmit initialData onSubmit f pb =
     (if trim (form_title f) = [] \<or> trim (form_content f) = [] then
        (Inr (), f, fst pb, alert ''Please fill in both title and content'' (snd pb))
      else
        (case onSubmit (normalized_draft f) pb of
           (Inr u, pb') \<Rightarrow>
             (Inr (),
              if initialData = None
              then f\<lparr>form_title := [], form_content := [], imageUrl := []\<rparr> else f,
              pb')
         | (Inl e, pb') \<Rightarrow> (Inl e, f, pb')))"

text \<open>
  The notes page draws the form with \<^verbatim>\<open>handleCreateNote\<close> as \<open>onSubmit\<close> and without
  \<^verbatim>\<open>initialData\<close>. \<^verbatim>\<open>handleCreateNote\<close> catches every rejection, so its promise is
  always fulfilled.
\<close>

definition onSubmit_create ::
  "axios_error + Note \<Rightarrow> axios_error + Note list \<Rightarrow> NoteCreate \<Rightarrow>
   notes_state \<times> browser \<Rightarrow> (axios_error + unit) \<times> notes_state \<times> browser" where
  "onSubmit_create created loaded noteData sb = (Inr (), handleCreateNote created loaded noteData sb)"

definition submit_new_note ::
  "axios_error + Note \<Rightarrow> axios_error + Note list \<Rightarrow> form_state \<Rightarrow>
   notes_state \<times> browser \<Rightarrow> (axios_error + unit) \<times> form_state \<times> notes_state \<times> browser" where
  "submit_new_note created loaded f sb =
     NoteForm_handleSubmit None (onSubmit_create created loaded) f sb"

section \<open>Example values\<close>

definition browser_signed_out :: browser where
  "browser_signed_out =
     \<lparr>localStorage = Map.empty, location_href = ''/login'', alerts = [], sent = []\<rparr>"

definition browser_signed_in :: browser where
  "browser_signed_in =
     \<lparr>localStorage = [''token'' \<mapsto> ''abc'', ''user'' \<mapsto> ''{}''], location_href = ''/notes'',
      alerts = [], sent = []\<rparr>"

definition groceries :: Note where
  "groceries =
     \<lparr>note_id = 1, title = ''Groceries'', content = ''Milk, eggs'', image_url = None,
      summary = None, user_id = ''u1'', created_at = ''2024-01-01'', updated_at = ''2024-01-01''\<rparr>"

definition chores :: Note where
  "chores =
     \<lparr>note_id = 2, title = ''Chores'', content = ''Laundry'', image_url = None,
      summary = None, user_id = ''u1'', created_at = ''2024-01-02'', updated_at = ''2024-01-02''\<rparr>"

definition two_notes :: notes_state where
  "two_notes =
     \<lparr>note_list = [groceries, chores], notes_loading = False, showForm = False,
      selectedNote = Some groceries, summarizing = None\<rparr>"

definition unauthorized :: axios_error where
  "unauthorized =
     \<lparr>err_status = Some 401, err_detail = None,
      err_message = ''Request failed with status code 401''\<rparr>"

definition server_error :: axios_error where
  "server_error =
     \<lparr>err_status = Some 500, err_detail = None,
      err_message = ''Request failed with status code 500''\<rparr>"

definition confirmation_pending :: auth_response where
  "confirmation_pending =
     \<lparr>access_token = None, token_type = None, user = None, requires_confirmation = True,
      message = Some ''Check your inbox''\<rparr>"

definition summarized :: Note where
  "summarized = summarize_endpoint groceries ''Buy milk and eggs''"

definition overlapping_attempts :: "page_event list" where
  "overlapping_attempts =
     [ClickSummarize, SelectNote chores, ClickSummarize, AnswerSummarize 0 (Inl server_error)]"

definition second_attempt_started :: "page_event list" where
  "second_attempt_started =
     [ClickSummarize, SelectNote chores, ClickSummarize, SelectNote groceries]"

definition select_during_request :: "page_event list" where
  "select_during_request =
     [ClickSummarize, SelectNote chores, AnswerSummarize 0 (Inr summarized)]"

definition delete_during_request :: "page_event list" where
  "delete_during_request =
     [ClickSummarize, SelectNote chores, ClickDelete True (Inr ()) (Inr [groceries]),
      AnswerSummarize 0 (Inr summarized)]"

definition one_attempt :: "page_event list" where
  "one_attempt = [ClickSummarize, SelectNote chores, SelectNote groceries]"

definition page_start :: page_config where
  "page_start = (two_notes, browser_signed_in, [])"

definition draft_groceries :: form_state where
  "draft_groceries =
     \<lparr>form_title = ''  Groceries '', form_content = ''Milk, eggs'', imageUrl = [],
      uploading = False\<rparr>"

definition draft_blank :: form_state where
  "draft_blank =
     \<lparr>form_title = ''   '', form_content = ''Milk, eggs'', imageUrl = [], uploading = False\<rparr>"

definition confirm_then_fail :: "login_event list" where
  "confirm_then_fail = [SearchParams [(''confirmed'', ''true'')], Submit (Inl server_error)]"

definition configured_url :: string where
  "configured_url = '' https://notes.example.com/api/ ''"

section \<open>Properties of the HTTP adapter\<close>

lemma trim_Nil: "trim [] = []"
  by (simp add: trim_def)

lemma request_of_no_authorization: "req_headers (request_of op) ''Authorization'' = None"
  by (cases op)
     (simp_all add: register_request_def login_request_def getAll_request_def getOne_request_def
        create_request_def update_request_def delete_request_def summarize_request_def
        uploadImage_request_def mk_request_def json_headers_def)

text \<open>
  C9. Every request that leaves the adapter is the configuration after the request
  interceptor. When a token is stored under \<^verbatim>\<open>token\<close> and is not the empty string, the
  interceptor sets the header \<^verbatim>\<open>Authorization\<close> to \<^verbatim>\<open>Bearer\<close>, a space and the token, and
  changes nothing else. When the stored value is false as a condition (nothing stored, or the
  empty string) the interceptor returns the configuration as it is, and a request of the
  facade then has no \<^verbatim>\<open>Authorization\<close> header.
\<close>

theorem bearer_token_attached:
  "sent (api_send config b) = sent b @ [request_interceptor b config]
   \<and> (localStorage b ''token'' = Some t \<and> t \<noteq> [] \<longrightarrow>
          request_interceptor b config =
            config\<lparr>req_headers := (req_headers config)(''Authorization'' \<mapsto> ''Bearer '' @ t)\<rparr>
          \<and> req_headers (request_interceptor b config) ''Authorization'' = Some (''Bearer '' @ t))
   \<and> (\<not> truthy (localStorage b ''token'') \<longrightarrow>
          request_interceptor b config = config
          \<and> req_headers (request_interceptor b (request_of op)) ''Authorization'' = None)"
  by (auto simp: api_send_def request_interceptor_def truthy_def request_of_no_authorization
           split: option.splits)

theorem bearer_token_attached_witness:
  "req_headers (request_interceptor browser_signed_in (request_of (Delete 7))) ''Authorization''
     = Some ''Bearer abc''
   \<and> req_headers (request_interceptor browser_signed_out (request_of (Login ''a@b.c'' ''secret'')))
       ''Authorization'' = None"
proof -
  have present: "localStorage browser_signed_in ''token'' = Some ''abc'' \<and> ''abc'' \<noteq> []"
    by (simp add: browser_signed_in_def)
  have absent: "\<not> truthy (localStorage browser_signed_out ''token'')"
    by (simp add: truthy_def browser_signed_out_def)
  from present bearer_token_attached [of "request_of (Delete 7)" browser_signed_in "''abc''"]
  have "req_headers (request_interceptor browser_signed_in (request_of (Delete 7)))
          ''Authorization'' = Some ''Bearer abc''"
    by simp
  moreover from absent
    bearer_token_attached [of "request_of GetAll" browser_signed_out "[]" "Login ''a@b.c'' ''secret''"]
  have "req_headers (request_interceptor browser_signed_out
          (request_of (Login ''a@b.c'' ''secret''))) ''Authorization'' = None"
    by blast
  ultimately show ?thesis
    by blast
qed

lemma response_401_clears_session:
  "err_status e = Some 401 \<Longrightarrow>
   api_receive (Inl e) b =
     (Inl e, b\<lparr>localStorage := (localStorage b)(''token'' := None, ''user'' := None),
               location_href := ''/login''\<rparr>)"
  by (simp add: api_receive_def response_rejected_def removeItem_def)

lemma loadNotes_401_no_alert:
  "err_status e = Some 401 \<Longrightarrow> alerts (snd (loadNotes (Inl e) (st, b))) = alerts b"
  by (simp add: loadNotes_def api_call_def api_send_def api_receive_def response_rejected_def
        removeItem_def Let_def)

text \<open>
  C1. A 401 answer to creating a note: the adapter clears the stored token and user, sets the
  location to \<^verbatim>\<open>/login\<close> and rejects, and the catch clause of \<^verbatim>\<open>handleCreateNote\<close> then
  shows the dialog \<^verbatim>\<open>Failed to create note\<close>. Of the call sites only \<^verbatim>\<open>loadNotes\<close> leaves
  the dialog out on a 401.
\<close>

theorem create_note_401_alerts:
  "handleCreateNote (Inl unauthorized) loaded noteData (st, b) =
     (st, \<lparr>localStorage = (localStorage b)(''token'' := None, ''user'' := None),
           location_href = ''/login'',
           alerts = alerts b @ [''Failed to create note''],
           sent = sent b @ [request_interceptor b (create_request noteData)]\<rparr>)"
  by (simp add: handleCreateNote_def api_call_def api_send_def api_receive_def
        response_rejected_def removeItem_def alert_def or_else_def unauthorized_def)

text \<open>The delete, summarize and upload handlers show their dialog on a 401 in the same way.\<close>

lemma delete_note_401_alerts:
  "alerts (snd (handleDeleteNote True (Inl unauthorized) loaded i (st, b)))
     = alerts b @ [''Failed to delete note'']"
  by (simp add: handleDeleteNote_def api_call_def api_send_def api_receive_def
        response_rejected_def removeItem_def alert_def or_else_def unauthorized_def)

lemma summarize_401_alerts:
  "alerts (snd (handleSummarize i (Inl unauthorized) (st, b)))
     = alerts b @ [''Failed to generate summary'']"
  by (simp add: handleSummarize_def handleSummarize_begin_def handleSummarize_complete_def
        api_send_def api_receive_def response_rejected_def removeItem_def alert_def or_else_def
        unauthorized_def)

lemma upload_401_alerts:
  "alerts (snd (handleImageUpload (Some f) (Inl unauthorized) (fs, b)))
     = alerts b @ [''Failed to upload image'']"
  by (simp add: handleImageUpload_def api_call_def api_send_def api_receive_def
        response_rejected_def removeItem_def alert_def or_else_def unauthorized_def)

section \<open>Properties of the login page\<close>

text \<open>
  C2. When the answer to a login or a register call carries \<^verbatim>\<open>requires_confirmation\<close>, the
  handler calls neither \<^verbatim>\<open>login\<close> nor \<^verbatim>\<open>navigate\<close>, the stored session and the location
  are as before, no dialog is shown, and the inline error is shown with the message of the
  answer, or with a fixed text when the answer has none.
\<close>

theorem confirmation_required_is_not_success:
  assumes "requires_confirmation response"
  shows "case Login_handleSubmit st (Inr response) b of
           (acts, b') \<Rightarrow>
             \<not> list_ex calls_session acts
             \<and> localStorage b' = localStorage b
             \<and> location_href b' = location_href b
             \<and> alerts b' = alerts b
             \<and> shows_error (run_actions acts st)
             \<and> error (run_actions acts st) =
                 or_else (message response) ''Please check your email to confirm your account.''
             \<and> success (run_actions acts st) = success st
             \<and> \<not> loading (run_actions acts st)"
  using assms
  by (simp add: Login_handleSubmit_def api_call_def api_send_def api_receive_def
        shows_error_def or_else_def split: option.splits)

theorem confirmation_required_is_not_success_witness:
  "requires_confirmation confirmation_pending
   \<and> \<not> list_ex calls_session (fst (Login_handleSubmit login_initial (Inr confirmation_pending)
                                     browser_signed_out))
   \<and> localStorage (snd (Login_handleSubmit login_initial (Inr confirmation_pending)
                          browser_signed_out)) ''token'' = None
   \<and> error (run_actions (fst (Login_handleSubmit login_initial (Inr confirmation_pending)
                                 browser_signed_out)) login_initial) = ''Check your inbox''"
proof -
  have h: "requires_confirmation confirmation_pending"
    by (simp add: confirmation_pending_def)
  from confirmation_required_is_not_success
         [OF h, where st = login_initial and b = browser_signed_out]
  show ?thesis
    by (simp add: h split_beta or_else_def confirmation_pending_def browser_signed_out_def)
qed

text \<open>
  C7, as the claim states it, fails: with \<^verbatim>\<open>confirmed=true\<close> and an \<^verbatim>\<open>error\<close> value in the
  same query the first branch of the effect wins, and no inline error is rendered.
\<close>

theorem confirmation_error_counterexample:
  "searchParams_get [(''confirmed'', ''true''), (''error'', ''access_denied'')] ''error''
     = Some ''access_denied''
   \<and> error (run_actions
        (Login_useEffect [(''confirmed'', ''true''), (''error'', ''access_denied'')]) login_initial) = []
   \<and> \<not> shows_error (run_actions
        (Login_useEffect [(''confirmed'', ''true''), (''error'', ''access_denied'')]) login_initial)"
  by (simp add: searchParams_get_def Login_useEffect_def login_initial_def shows_error_def)

text \<open>
  C7, amended. When the query has \<^verbatim>\<open>confirmed=true\<close> or \<^verbatim>\<open>success=true\<close>, the effect shows
  the success banner, shows no inline error, and leaves the browser as it is: no request is
  sent. When the query has neither and carries an \<^verbatim>\<open>error\<close> value that is not empty, the
  inline error is \<^verbatim>\<open>Confirmation failed: \<close> followed by that value, unchanged.
\<close>

theorem confirmation_query_banners:
  "(searchParams_get q ''confirmed'' = Some ''true'' \<or> searchParams_get q ''success'' = Some ''true''
      \<longrightarrow> (case login_step (SearchParams q) (st, b) of
             (st', b') \<Rightarrow>
               b' = b \<and> shows_success st'
               \<and> success st' = ''Email confirmed successfully! You can now log in.''
               \<and> \<not> shows_error st'))
   \<and> (searchParams_get q ''confirmed'' \<noteq> Some ''true''
      \<and> searchParams_get q ''success'' \<noteq> Some ''true''
      \<and> searchParams_get q ''error'' = Some v \<and> v \<noteq> []
      \<longrightarrow> (case login_step (SearchParams q) (st, b) of
             (st', b') \<Rightarrow>
               b' = b \<and> shows_error st' \<and> error st' = ''Confirmation failed: '' @ v
               \<and> success st' = success st))"
  by (simp add: login_step_def Login_useEffect_def shows_success_def shows_error_def
        truthy_def or_else_def)

theorem confirmation_query_banners_witness:
  "shows_success (fst (login_step (SearchParams [(''confirmed'', ''true'')])
                         (login_initial, browser_signed_out)))
   \<and> snd (login_step (SearchParams [(''confirmed'', ''true'')])
            (login_initial, browser_signed_out)) = browser_signed_out
   \<and> error (fst (login_step (SearchParams [(''error'', ''access_denied'')])
                   (login_initial, browser_signed_out))) = ''Confirmation failed: access_denied''"
proof -
  have a: "searchParams_get [(''confirmed'', ''true'')] ''confirmed'' = Some ''true''"
    by (simp add: searchParams_get_def)
  have b: "searchParams_get [(''error'', ''access_denied'')] ''confirmed'' \<noteq> Some ''true''
           \<and> searchParams_get [(''error'', ''access_denied'')] ''success'' \<noteq> Some ''true''
           \<and> searchParams_get [(''error'', ''access_denied'')] ''error'' = Some ''access_denied''
           \<and> ''access_denied'' \<noteq> []"
    by (simp add: searchParams_get_def)
  from a confirmation_query_banners
         [where q = "[(''confirmed'', ''true'')]" and st = login_initial
            and b = browser_signed_out and v = "[]"]
  have "shows_success (fst (login_step (SearchParams [(''confirmed'', ''true'')])
                              (login_initial, browser_signed_out)))
        \<and> snd (login_step (SearchParams [(''confirmed'', ''true'')])
                 (login_initial, browser_signed_out)) = browser_signed_out"
    by (simp add: split_beta)
  moreover from b confirmation_query_banners
         [where q = "[(''error'', ''access_denied'')]" and st = login_initial
            and b = browser_signed_out and v = "''access_denied''"]
  have "error (fst (login_step (SearchParams [(''error'', ''access_denied'')])
                      (login_initial, browser_signed_out))) = ''Confirmation failed: access_denied''"
    by (simp add: split_beta)
  ultimately show ?thesis
    by blast
qed

text \<open>
  C8. No event of the login page surfaces both banners: whatever the state, the handler of
  an event never calls \<^verbatim>\<open>setError\<close> with a text and \<^verbatim>\<open>setSuccess\<close> with a text. So it is
  along every sequence of events from the mounted page. When both banners are on the screen
  after an event, one of them was there before the event with the same text; and on the
  mounted page the first event leaves at most one banner on the screen.
\<close>

theorem one_banner_per_event:
  "\<not> (list_ex sets_error (fst (login_handler ev st b))
       \<and> list_ex sets_success (fst (login_handler ev st b)))
   \<and> (i < length evs \<longrightarrow>
        (case login_run (take i evs) (login_initial, b0) of
          (st_i, b_i) \<Rightarrow>
            \<not> (list_ex sets_error (fst (login_handler (evs ! i) st_i b_i))
                 \<and> list_ex sets_success (fst (login_handler (evs ! i) st_i b_i)))))
   \<and> (shows_error (fst (login_step ev (st, b))) \<and> shows_success (fst (login_step ev (st, b)))
        \<longrightarrow> (shows_error st \<and> error (fst (login_step ev (st, b))) = error st)
            \<or> (shows_success st \<and> success (fst (login_step ev (st, b))) = success st))
   \<and> \<not> (shows_error (fst (login_step ev (login_initial, b)))
       \<and> shows_success (fst (login_step ev (login_initial, b))))"
proof -
  have per_event: "\<not> (list_ex sets_error (fst (login_handler e s c))
                       \<and> list_ex sets_success (fst (login_handler e s c)))" for e s c
    by (cases e)
       (auto simp: Login_useEffect_def Login_handleSubmit_def Login_toggle_def
          api_call_def api_send_def api_receive_def Let_def
          split: sum.splits prod.splits if_splits)
  have mounted: "\<not> (shows_error (fst (login_step ev (login_initial, b)))
                     \<and> shows_success (fst (login_step ev (login_initial, b))))"
    by (cases ev)
       (auto simp: Login_useEffect_def Login_handleSubmit_def Login_toggle_def login_step_def
          api_call_def api_send_def api_receive_def shows_error_def shows_success_def
          login_initial_def Let_def
          split: sum.splits prod.splits if_splits)
  have leftover:
    "shows_error (fst (login_step ev (st, b))) \<and> shows_success (fst (login_step ev (st, b)))
        \<longrightarrow> (shows_error st \<and> error (fst (login_step ev (st, b))) = error st)
            \<or> (shows_success st \<and> success (fst (login_step ev (st, b))) = success st)"
    by (cases ev)
       (auto simp: Login_useEffect_def Login_handleSubmit_def Login_toggle_def login_step_def
          api_call_def api_send_def api_receive_def shows_error_def shows_success_def Let_def
          split: sum.splits prod.splits if_splits)
  have traced: "i < length evs \<longrightarrow>
        (case login_run (take i evs) (login_initial, b0) of
          (st_i, b_i) \<Rightarrow>
            \<not> (list_ex sets_error (fst (login_handler (evs ! i) st_i b_i))
                 \<and> list_ex sets_success (fst (login_handler (evs ! i) st_i b_i))))"
    using per_event by (simp add: split_beta)
  from per_event [of ev st b] traced leftover mounted show ?thesis
    by (intro conjI)
qed

theorem one_banner_per_event_witness:
  "1 < length confirm_then_fail
   \<and> (case login_run (take 1 confirm_then_fail) (login_initial, browser_signed_out) of
         (st_i, b_i) \<Rightarrow>
           \<not> (list_ex sets_error (fst (login_handler (confirm_then_fail ! 1) st_i b_i))
                \<and> list_ex sets_success (fst (login_handler (confirm_then_fail ! 1) st_i b_i))))"
proof -
  have i: "1 < length confirm_then_fail"
    by (simp add: confirm_then_fail_def)
  from one_banner_per_event
         [where evs = confirm_then_fail and i = 1 and ?b0.0 = browser_signed_out
            and ev = ToggleMode and st = login_initial and b = browser_signed_out]
  have "1 < length confirm_then_fail \<longrightarrow>
        (case login_run (take 1 confirm_then_fail) (login_initial, browser_signed_out) of
         (st_i, b_i) \<Rightarrow>
           \<not> (list_ex sets_error (fst (login_handler (confirm_then_fail ! 1) st_i b_i))
                \<and> list_ex sets_success (fst (login_handler (confirm_then_fail ! 1) st_i b_i))))"
    by (rule conjunct1 [OF conjunct2])
  from this i
  have "case login_run (take 1 confirm_then_fail) (login_initial, browser_signed_out) of
         (st_i, b_i) \<Rightarrow>
           \<not> (list_ex sets_error (fst (login_handler (confirm_then_fail ! 1) st_i b_i))
                \<and> list_ex sets_success (fst (login_handler (confirm_then_fail ! 1) st_i b_i)))"
    by (rule mp)
  with i show ?thesis
    by (rule conjI)
qed

text \<open>
  Banners of different events can be on the screen together: the success text is never
  cleared, so the banner of a confirmation stays when a later submission fails.
\<close>

lemma confirmation_step:
  "login_step (SearchParams [(''confirmed'', ''true'')]) (login_initial, b)
   = (login_initial\<lparr>success := ''Email confirmed successfully! You can now log in.''\<rparr>, b)"
  by (simp add: login_step_def Login_useEffect_def searchParams_get_def login_initial_def)

lemma failed_submit_step:
  "fst (login_step (Submit (Inl server_error)) (st, b))
     = st\<lparr>error := ''Request failed with status code 500'', loading := False\<rparr>"
  by (simp add: login_step_def Login_handleSubmit_def api_call_def api_receive_def
        server_error_def or_else_def split_beta)

lemma banners_of_two_events:
  "shows_error (fst (login_run confirm_then_fail (login_initial, browser_signed_out)))
   \<and> shows_success (fst (login_run confirm_then_fail (login_initial, browser_signed_out)))"
  by (simp add: confirm_then_fail_def confirmation_step failed_submit_step
        shows_error_def shows_success_def)

section \<open>Properties of the notes page\<close>

lemma handleSummarize_fulfilled:
  "handleSummarize X (Inr u) (st, b) =
     (st\<lparr>note_list := map (\<lambda>n. if note_id n = X then u else n) (note_list st),
         selectedNote := (if map_option note_id (selectedNote st) = Some X then Some u
                          else selectedNote st),
         summarizing := None\<rparr>,
      api_send (summarize_request X) b)"
  by (cases "selectedNote st")
     (simp_all add: handleSummarize_def handleSummarize_begin_def handleSummarize_complete_def
        api_receive_def Let_def)

lemma only_summary_differs:
  "u = n\<lparr>summary := s\<rparr> \<Longrightarrow> title u = title n \<and> content u = content n"
  by simp

text \<open>
  With no event between the call and the answer, a fulfilled summarize of note \<open>X\<close> with the
  returned note \<open>u\<close> keeps the length of the list, leaves every entry whose identifier is not
  \<open>X\<close> as before and makes every entry whose identifier is \<open>X\<close> the note \<open>u\<close>; the selection
  becomes \<open>u\<close> when the selected note has identifier \<open>X\<close> and is as before otherwise. When
  \<open>u\<close> is the entry with its summary populated, which is what the summarize endpoint answers,
  the entry keeps its title and content and differs in the summary only.
\<close>

lemma summarize_replaces_by_identifier:
  assumes "handleSummarize X (Inr u) (st, b) = (st', b')"
  shows "length (note_list st') = length (note_list st)
         \<and> (\<forall>i < length (note_list st).
               (note_id (note_list st ! i) \<noteq> X \<longrightarrow> note_list st' ! i = note_list st ! i)
               \<and> (note_id (note_list st ! i) = X \<longrightarrow> note_list st' ! i = u)
               \<and> (note_id (note_list st ! i) = X \<and> u = summarize_endpoint (note_list st ! i) t
                    \<longrightarrow> title (note_list st' ! i) = title (note_list st ! i)
                        \<and> content (note_list st' ! i) = content (note_list st ! i)
                        \<and> note_list st' ! i = (note_list st ! i)\<lparr>summary := Some t\<rparr>))
         \<and> (case selectedNote st of
               None \<Rightarrow> selectedNote st' = None
             | Some s \<Rightarrow>
                 (note_id s \<noteq> X \<longrightarrow> selectedNote st' = Some s)
                 \<and> (note_id s = X \<longrightarrow> selectedNote st' = Some u)
                 \<and> (note_id s = X \<and> u = summarize_endpoint s t
                      \<longrightarrow> selectedNote st' = Some (s\<lparr>summary := Some t\<rparr>)))
         \<and> notes_loading st' = notes_loading st \<and> showForm st' = showForm st
         \<and> alerts b' = alerts b"
proof -
  from assms have st': "st' = st\<lparr>note_list := map (\<lambda>n. if note_id n = X then u else n) (note_list st),
         selectedNote := (if map_option note_id (selectedNote st) = Some X then Some u
                          else selectedNote st),
         summarizing := None\<rparr>"
    and b': "b' = api_send (summarize_request X) b"
    by (simp_all add: handleSummarize_fulfilled)
  have frame: "\<forall>i < length (note_list st).
               (note_id (note_list st ! i) \<noteq> X \<longrightarrow> note_list st' ! i = note_list st ! i)
               \<and> (note_id (note_list st ! i) = X \<longrightarrow> note_list st' ! i = u)"
    by (simp add: st')
  have same: "\<forall>i < length (note_list st).
               note_id (note_list st ! i) = X \<and> u = summarize_endpoint (note_list st ! i) t
                 \<longrightarrow> title (note_list st' ! i) = title (note_list st ! i)
                     \<and> content (note_list st' ! i) = content (note_list st ! i)
                     \<and> note_list st' ! i = (note_list st ! i)\<lparr>summary := Some t\<rparr>"
    using frame only_summary_differs unfolding summarize_endpoint_def by metis
  have sel: "case selectedNote st of
               None \<Rightarrow> selectedNote st' = None
             | Some s \<Rightarrow>
                 (note_id s \<noteq> X \<longrightarrow> selectedNote st' = Some s)
                 \<and> (note_id s = X \<longrightarrow> selectedNote st' = Some u)
                 \<and> (note_id s = X \<and> u = summarize_endpoint s t
                      \<longrightarrow> selectedNote st' = Some (s\<lparr>summary := Some t\<rparr>))"
    by (cases "selectedNote st") (simp_all add: st' summarize_endpoint_def)
  have rest: "length (note_list st') = length (note_list st)
         \<and> notes_loading st' = notes_loading st \<and> showForm st' = showForm st
         \<and> alerts b' = alerts b"
    by (simp add: st' b' api_send_def)
  from frame same sel rest show ?thesis
    by simp
qed

lemma summarize_replaces_by_identifier_example:
  "note_list (fst (handleSummarize 1 (Inr summarized) (two_notes, browser_signed_in))) ! 0
     = groceries\<lparr>summary := Some ''Buy milk and eggs''\<rparr>
   \<and> title (note_list (fst (handleSummarize 1 (Inr summarized) (two_notes, browser_signed_in))) ! 0)
     = ''Groceries''
   \<and> note_list (fst (handleSummarize 1 (Inr summarized) (two_notes, browser_signed_in))) ! 1
     = chores
   \<and> selectedNote (fst (handleSummarize 1 (Inr summarized) (two_notes, browser_signed_in)))
     = Some summarized"
proof -
  obtain st' b' where h: "handleSummarize 1 (Inr summarized) (two_notes, browser_signed_in) = (st', b')"
    by (cases "handleSummarize 1 (Inr summarized) (two_notes, browser_signed_in)") simp
  have i0: "0 < length (note_list two_notes) \<and> note_id (note_list two_notes ! 0) = 1
            \<and> summarized = summarize_endpoint (note_list two_notes ! 0) ''Buy milk and eggs''"
    by (simp add: two_notes_def groceries_def summarized_def)
  have i1: "1 < length (note_list two_notes) \<and> note_id (note_list two_notes ! 1) \<noteq> 1"
    by (simp add: two_notes_def chores_def)
  have s: "selectedNote two_notes = Some groceries \<and> note_id groceries = 1"
    by (simp add: two_notes_def groceries_def)
  note t = summarize_replaces_by_identifier [OF h, where t = "''Buy milk and eggs''"]
  from t i0 have a: "note_list st' ! 0 = (note_list two_notes ! 0)\<lparr>summary := Some ''Buy milk and eggs''\<rparr>
                     \<and> title (note_list st' ! 0) = title (note_list two_notes ! 0)"
    by blast
  from t i1 have b: "note_list st' ! 1 = note_list two_notes ! 1"
    by blast
  from t s have c: "selectedNote st' = Some summarized"
    by simp
  from a have a': "note_list st' ! 0 = groceries\<lparr>summary := Some ''Buy milk and eggs''\<rparr>
                   \<and> title (note_list st' ! 0) = ''Groceries''"
    by (simp add: two_notes_def groceries_def)
  from b have b': "note_list st' ! 1 = chores"
    by (simp add: two_notes_def)
  from a' b' c show ?thesis
    by (simp add: h groceries_def)
qed

lemma two_notes_fields:
  "note_list two_notes = [groceries, chores]" "\<not> notes_loading two_notes"
  "selectedNote two_notes = Some groceries" "summarizing two_notes = None"
  "\<not> showForm two_notes"
  by (simp_all add: two_notes_def)

lemma note_ids: "note_id groceries = 1" "note_id chores = 2" "note_id summarized = 1"
  by (simp_all add: groceries_def chores_def summarized_def summarize_endpoint_def)

lemma click_groceries:
  "page_step ClickSummarize page_start =
     (two_notes\<lparr>summarizing := Some 1\<rparr>,
      api_send (summarize_request 1) browser_signed_in,
      [\<lparr>sc_noteId = 1, sc_notes = [groceries, chores], sc_selectedNote = Some groceries\<rparr>])"
  by (simp add: page_start_def two_notes_fields note_ids summarize_disabled_def
        handleSummarize_begin_def)

text \<open>
  C3. An event between the call and the answer: the second half of \<^verbatim>\<open>handleSummarize\<close> works
  on the list and the selection that the first half captured. With the groceries note
  selected and its summary requested, selecting the chores note before the answer comes
  leaves the chores note selected until the answer, which then puts the selection back on
  note 1 although it is not the note currently selected. And when the chores note is deleted
  and the list fetched again before the answer comes, the answer writes back the list of
  the call, with the chores note in it.
\<close>

theorem late_answer_uses_captured_state:
  "selectedNote (fst (page_run [ClickSummarize, SelectNote chores] page_start)) = Some chores
   \<and> selectedNote (fst (page_run select_during_request page_start)) = Some summarized
   \<and> note_list (fst (page_run [ClickSummarize, SelectNote chores,
                               ClickDelete True (Inr ()) (Inr [groceries])] page_start))
       = [groceries]
   \<and> note_list (fst (page_run delete_during_request page_start)) = [summarized, chores]"
  by (simp add: select_during_request_def delete_during_request_def click_groceries
        two_notes_fields note_ids summarize_disabled_def handleSummarize_complete_def
        handleDeleteNote_def loadNotes_def api_call_def api_send_def api_receive_def Let_def)

text \<open>
  C10, as the claim states it, fails when two attempts overlap, since one indicator serves
  all notes. After summarize is pressed for note 1, then for note 2, and the first request is
  rejected, note 2 is selected and its request is in flight, yet its button is not disabled.
  And after both are pressed and note 1 is selected again, the request of note 1 is in flight
  and its button is not disabled.
\<close>

theorem overlapping_attempts_counterexample:
  "selectedNote (fst (page_run overlapping_attempts page_start)) = Some chores
   \<and> in_flight (page_run overlapping_attempts page_start) (note_id chores)
   \<and> \<not> summarize_disabled (fst (page_run overlapping_attempts page_start))
   \<and> selectedNote (fst (page_run second_attempt_started page_start)) = Some groceries
   \<and> in_flight (page_run second_attempt_started page_start) (note_id groceries)
   \<and> \<not> summarize_disabled (fst (page_run second_attempt_started page_start))"
  by (simp add: overlapping_attempts_def second_attempt_started_def click_groceries
        two_notes_fields note_ids summarize_disabled_def handleSummarize_begin_def
        handleSummarize_complete_def api_send_def api_receive_def in_flight_def
        response_rejected_def alert_def server_error_def Let_def)

lemma loadNotes_summarizing: "summarizing (fst (loadNotes loaded (st, b))) = summarizing st"
  by (simp add: loadNotes_def api_call_def api_receive_def Let_def split: sum.splits)

lemma handleCreateNote_summarizing:
  "summarizing (fst (handleCreateNote created loaded nd (st, b))) = summarizing st"
  by (simp add: handleCreateNote_def api_call_def api_receive_def loadNotes_summarizing
        split: sum.splits)

lemma handleDeleteNote_summarizing:
  "summarizing (fst (handleDeleteNote confirmed deleted loaded i (st, b))) = summarizing st"
  by (simp add: handleDeleteNote_def api_call_def api_receive_def split_beta
        loadNotes_summarizing split: sum.splits)

lemma complete_summarizing:
  "summarizing (fst (handleSummarize_complete c outcome sb)) = None"
  by (simp add: handleSummarize_complete_def api_receive_def Let_def split: sum.splits)

lemma page_step_indicator:
  assumes "indicator_ok cfg" "ev = ClickSummarize \<longrightarrow> snd (snd cfg) = []"
  shows "indicator_ok (page_step ev cfg)"
proof -
  obtain st b ps where cfg: "cfg = (st, b, ps)"
    by (cases cfg)
  consider "ps = []" "summarizing st = None"
    | c where "ps = [c]" "summarizing st = Some (sc_noteId c)"
    using assms(1) unfolding indicator_ok_def cfg
    by (cases ps; cases "tl ps") (auto split: list.splits)
  then show ?thesis
  proof cases
    case 1
    then show ?thesis
      unfolding cfg
      by (cases ev)
         (auto simp: indicator_ok_def loadNotes_summarizing handleCreateNote_summarizing
            handleDeleteNote_summarizing handleSummarize_begin_def split_beta
            split: option.splits)
  next
    case 2
    then show ?thesis
      using assms(2) unfolding cfg
      by (cases ev)
         (auto simp: indicator_ok_def loadNotes_summarizing handleCreateNote_summarizing
            handleDeleteNote_summarizing complete_summarizing split_beta
            split: option.splits)
  qed
qed

lemma page_run_indicator:
  "indicator_ok cfg \<Longrightarrow> no_overlap evs cfg \<Longrightarrow> indicator_ok (page_run evs cfg)"
proof (induction evs arbitrary: cfg)
  case Nil
  then show ?case by simp
next
  case (Cons ev evs)
  from Cons.prems have "indicator_ok (page_step ev cfg)"
    by (intro page_step_indicator) simp_all
  moreover from Cons.prems have "no_overlap evs (page_step ev cfg)"
    by simp
  ultimately show ?case
    using Cons.IH by simp
qed

lemma indicator_disabled:
  assumes "indicator_ok (st, b, ps)" "selectedNote st = Some n"
  shows "summarize_disabled st \<longleftrightarrow> in_flight (st, b, ps) (note_id n)"
  using assms
  by (cases ps; cases "tl ps")
     (auto simp: indicator_ok_def summarize_disabled_def in_flight_def split: list.splits)

text \<open>
  C10, amended. The end of a summarize attempt, fulfilled or rejected, sets
  \<^verbatim>\<open>summarizing\<close> to \<^verbatim>\<open>null\<close> and leaves the loading view as it was, so when the page is
  drawn and a note is selected the button is on the screen and enabled after the answer.
  Along every run of events in which summarize is pressed only when no summarize request
  is in flight, the button of the selected note is disabled exactly when a request for that
  note is in flight.
\<close>

theorem summarizing_reset_after_attempt:
  "summarizing (fst (handleSummarize_complete c outcome (st, b))) = None
   \<and> notes_loading (fst (handleSummarize_complete c outcome (st, b))) = notes_loading st
   \<and> (\<not> notes_loading st \<and> selectedNote st \<noteq> None
        \<longrightarrow> summarize_enabled (fst (handleSummarize_complete c outcome (st, b))))
   \<and> (summarizing st0 = None \<and> no_overlap evs (st0, b0, [])
        \<and> selectedNote (fst (page_run evs (st0, b0, []))) = Some n
        \<longrightarrow> (summarize_disabled (fst (page_run evs (st0, b0, [])))
              \<longleftrightarrow> in_flight (page_run evs (st0, b0, [])) (note_id n)))"
proof -
  have reset: "summarizing (fst (handleSummarize_complete c outcome (st, b))) = None"
    by (rule complete_summarizing)
  have loading: "notes_loading (fst (handleSummarize_complete c outcome (st, b))) = notes_loading st"
    by (simp add: handleSummarize_complete_def api_receive_def Let_def split: sum.splits)
  have selected: "selectedNote st \<noteq> None
      \<Longrightarrow> selectedNote (fst (handleSummarize_complete c outcome (st, b))) \<noteq> None"
    by (simp add: handleSummarize_complete_def api_receive_def Let_def split: sum.splits)
  have enabled: "\<not> notes_loading st \<and> selectedNote st \<noteq> None
        \<longrightarrow> summarize_enabled (fst (handleSummarize_complete c outcome (st, b)))"
    using reset loading selected
    by (auto simp: summarize_enabled_def summarize_disabled_def split: option.splits)
  have traced: "summarize_disabled (fst (page_run evs (st0, b0, [])))
              \<longleftrightarrow> in_flight (page_run evs (st0, b0, [])) (note_id n)"
    if "summarizing st0 = None" "no_overlap evs (st0, b0, [])"
       "selectedNote (fst (page_run evs (st0, b0, []))) = Some n"
  proof -
    have "indicator_ok (st0, b0, [])"
      using that(1) by (simp add: indicator_ok_def)
    then have ok: "indicator_ok (page_run evs (st0, b0, []))"
      using that(2) by (rule page_run_indicator)
    obtain st1 b1 ps1 where r: "page_run evs (st0, b0, []) = (st1, b1, ps1)"
      by (cases "page_run evs (st0, b0, [])")
    from ok that(3) show ?thesis
      unfolding r by (simp add: indicator_disabled)
  qed
  from reset loading enabled traced show ?thesis
    by blast
qed

theorem summarizing_reset_after_attempt_witness:
  "summarizing two_notes = None \<and> no_overlap one_attempt page_start
   \<and> selectedNote (fst (page_run one_attempt page_start)) = Some groceries
   \<and> in_flight (page_run one_attempt page_start) (note_id groceries)
   \<and> summarize_disabled (fst (page_run one_attempt page_start))
   \<and> summarize_enabled
        (fst (handleSummarize_complete
               (hd (snd (snd (page_run one_attempt page_start)))) (Inl server_error)
               (fst (page_run one_attempt page_start),
                fst (snd (page_run one_attempt page_start)))))"
proof -
  have run: "page_run one_attempt page_start =
     (two_notes\<lparr>summarizing := Some 1\<rparr>,
      api_send (summarize_request 1) browser_signed_in,
      [\<lparr>sc_noteId = 1, sc_notes = [groceries, chores], sc_selectedNote = Some groceries\<rparr>])"
    by (simp add: one_attempt_def click_groceries two_notes_fields)
  have h: "summarizing two_notes = None \<and> no_overlap one_attempt (two_notes, browser_signed_in, [])
           \<and> selectedNote (fst (page_run one_attempt (two_notes, browser_signed_in, [])))
               = Some groceries"
    using run click_groceries
    by (simp add: one_attempt_def page_start_def two_notes_fields)
  have g: "\<not> notes_loading (fst (page_run one_attempt page_start))
           \<and> selectedNote (fst (page_run one_attempt page_start)) \<noteq> None"
    by (simp add: run two_notes_fields)
  note t = summarizing_reset_after_attempt
             [where ?st0.0 = two_notes and ?b0.0 = browser_signed_in and evs = one_attempt
                and n = groceries
                and st = "fst (page_run one_attempt page_start)"
                and b = "fst (snd (page_run one_attempt page_start))"
                and c = "hd (snd (snd (page_run one_attempt page_start)))"
                and outcome = "Inl server_error"]
  from t h have d: "summarize_disabled (fst (page_run one_attempt page_start))
                    \<longleftrightarrow> in_flight (page_run one_attempt page_start) (note_id groceries)"
    by (simp add: page_start_def)
  from t g have e: "summarize_enabled
        (fst (handleSummarize_complete
               (hd (snd (snd (page_run one_attempt page_start)))) (Inl server_error)
               (fst (page_run one_attempt page_start),
                fst (snd (page_run one_attempt page_start)))))"
    by blast
  have f: "in_flight (page_run one_attempt page_start) (note_id groceries)"
    by (simp add: run in_flight_def note_ids)
  from h d e f show ?thesis
    by (simp add: page_start_def)
qed

section \<open>Properties of the note form\<close>

lemma cleared_form_title:
  "f = f\<lparr>form_title := [], form_content := c, imageUrl := i\<rparr> \<Longrightarrow> form_title f = []"
  by (cases f) simp

text \<open>
  C5. Submit is blocked when the title or the content is empty after trimming: the handler
  of the parent is not called, a dialog asks for both, and the fields are as before.
  Otherwise the handler is called with the trimmed title, the trimmed content and the image
  URL, absent when it is empty. When the handler's promise is fulfilled the fields are reset
  if and only if no initial data was supplied; when it is rejected the fields are as before.
\<close>

theorem form_submit_validates_and_normalizes:
  "(trim (form_title f) = [] \<or> trim (form_content f) = [] \<longrightarrow>
      NoteForm_handleSubmit initialData onSubmit f pb =
        (Inr (), f, fst pb, alert ''Please fill in both title and content'' (snd pb)))
   \<and> (trim (form_title f) \<noteq> [] \<and> trim (form_content f) \<noteq> []
        \<and> onSubmit \<lparr>nc_title = trim (form_title f), nc_content = trim (form_content f),
                     nc_image_url = (if imageUrl f = [] then None else Some (imageUrl f))\<rparr> pb
            = (Inr u, pb') \<longrightarrow>
          NoteForm_handleSubmit initialData onSubmit f pb =
            (Inr (),
             if initialData = None
             then f\<lparr>form_title := [], form_content := [], imageUrl := []\<rparr> else f, pb')
          \<and> (fst (snd (NoteForm_handleSubmit initialData onSubmit f pb))
                 = f\<lparr>form_title := [], form_content := [], imageUrl := []\<rparr>
               \<longleftrightarrow> initialData = None)
          \<and> (fst (snd (NoteForm_handleSubmit initialData onSubmit f pb)) = f
               \<longleftrightarrow> initialData \<noteq> None))
   \<and> (trim (form_title f) \<noteq> [] \<and> trim (form_content f) \<noteq> []
        \<and> onSubmit \<lparr>nc_title = trim (form_title f), nc_content = trim (form_content f),
                     nc_image_url = (if imageUrl f = [] then None else Some (imageUrl f))\<rparr> pb
            = (Inl e, pb'') \<longrightarrow>
          NoteForm_handleSubmit initialData onSubmit f pb = (Inl e, f, pb''))"
  by (auto simp: NoteForm_handleSubmit_def normalized_draft_def trim_Nil
        dest!: cleared_form_title cleared_form_title [OF sym])

lemma trim_draft_groceries:
  "trim (form_title draft_groceries) = ''Groceries''
   \<and> trim (form_content draft_groceries) = ''Milk, eggs''"
  by (simp add: draft_groceries_def trim_def is_whitespace_def)

lemma trim_draft_blank: "trim (form_title draft_blank) = []"
  by (simp add: draft_blank_def trim_def is_whitespace_def)

theorem form_submit_validates_and_normalizes_witness:
  "NoteForm_handleSubmit None (onSubmit_create (Inr groceries) (Inr [groceries])) draft_blank
     (two_notes, browser_signed_in)
     = (Inr (), draft_blank, two_notes,
        alert ''Please fill in both title and content'' browser_signed_in)
   \<and> fst (snd (NoteForm_handleSubmit None (onSubmit_create (Inr groceries) (Inr [groceries]))
                 draft_groceries (two_notes, browser_signed_in)))
     = draft_groceries\<lparr>form_title := [], form_content := [], imageUrl := []\<rparr>
   \<and> snd (snd (NoteForm_handleSubmit None (onSubmit_create (Inr groceries) (Inr [groceries]))
                 draft_groceries (two_notes, browser_signed_in)))
     = handleCreateNote (Inr groceries) (Inr [groceries])
         \<lparr>nc_title = ''Groceries'', nc_content = ''Milk, eggs'', nc_image_url = None\<rparr>
         (two_notes, browser_signed_in)"
proof -
  let ?h = "onSubmit_create (Inr groceries) (Inr [groceries])"
  let ?pb = "(two_notes, browser_signed_in)"
  let ?d = "\<lparr>nc_title = ''Groceries'', nc_content = ''Milk, eggs'', nc_image_url = None\<rparr>"
  have blank: "trim (form_title draft_blank) = [] \<or> trim (form_content draft_blank) = []"
    by (simp add: trim_draft_blank)
  from blank form_submit_validates_and_normalizes
         [where f = draft_blank and initialData = None and onSubmit = ?h and pb = ?pb
            and u = "()" and pb' = ?pb and e = server_error and pb'' = ?pb]
  have 1: "NoteForm_handleSubmit None ?h draft_blank ?pb
             = (Inr (), draft_blank, two_notes,
                alert ''Please fill in both title and content'' browser_signed_in)"
    by simp
  have filled: "trim (form_title draft_groceries) \<noteq> [] \<and> trim (form_content draft_groceries) \<noteq> []
     \<and> ?h \<lparr>nc_title = trim (form_title draft_groceries),
            nc_content = trim (form_content draft_groceries),
            nc_image_url = (if imageUrl draft_groceries = [] then None
                            else Some (imageUrl draft_groceries))\<rparr> ?pb
         = (Inr (), handleCreateNote (Inr groceries) (Inr [groceries]) ?d ?pb)"
    by (simp add: trim_draft_groceries onSubmit_create_def) (simp add: draft_groceries_def)
  from filled form_submit_validates_and_normalizes
         [where f = draft_groceries and initialData = None and onSubmit = ?h and pb = ?pb
            and u = "()" and pb' = "handleCreateNote (Inr groceries) (Inr [groceries]) ?d ?pb"
            and e = server_error and pb'' = ?pb]
  have 2: "NoteForm_handleSubmit None ?h draft_groceries ?pb =
            (Inr (), draft_groceries\<lparr>form_title := [], form_content := [], imageUrl := []\<rparr>,
             handleCreateNote (Inr groceries) (Inr [groceries]) ?d ?pb)"
    by simp
  from 1 2 show ?thesis
    by simp
qed

text \<open>
  C4. A rejected create from the form of the notes page: \<^verbatim>\<open>handleCreateNote\<close> catches the
  rejection and shows a dialog, its promise is fulfilled, and the form then resets its
  fields. The page state is as before, but the draft is gone.
\<close>

theorem failed_create_clears_draft:
  "submit_new_note (Inl server_error) loaded draft_groceries (st, b) =
     (Inr (),
      \<lparr>form_title = [], form_content = [], imageUrl = [], uploading = False\<rparr>,
      st,
      b\<lparr>alerts := alerts b @ [''Failed to create note''],
        sent := sent b @ [request_interceptor b
          (create_request \<lparr>nc_title = ''Groceries'', nc_content = ''Milk, eggs'',
                           nc_image_url = None\<rparr>)]\<rparr>)"
  by (simp add: submit_new_note_def NoteForm_handleSubmit_def onSubmit_create_def
        handleCreateNote_def normalized_draft_def trim_draft_groceries
        api_call_def api_send_def api_receive_def response_rejected_def alert_def or_else_def
        server_error_def)
     (simp add: draft_groceries_def)

text \<open>The other rejected operations leave the list and the selection as they were.\<close>

lemma failed_delete_keeps_page:
  "fst (handleDeleteNote confirmed (Inl e) loaded i (st, b)) = st"
  by (simp add: handleDeleteNote_def api_call_def api_receive_def)

lemma failed_summarize_keeps_notes:
  "note_list (fst (handleSummarize i (Inl e) (st, b))) = note_list st
   \<and> selectedNote (fst (handleSummarize i (Inl e) (st, b))) = selectedNote st"
  by (simp add: handleSummarize_def handleSummarize_begin_def handleSummarize_complete_def
        api_receive_def)

section \<open>Properties of the base URL\<close>

lemma trim_append_middle:
  assumes "L \<noteq> []" "\<not> is_whitespace (hd L)" "\<not> is_whitespace (last L)"
  shows "trim (ps @ L @ ss) =
           dropWhile is_whitespace ps @ L @ rev (dropWhile is_whitespace (rev ss))"
proof -
  obtain l L' where L: "L = l # L'"
    using assms(1) by (cases L) auto
  obtain k K where R: "rev L = k # K"
    using assms(1) by (cases "rev L") auto
  have k: "k = last L"
    using R assms(1) by (metis last_rev list.sel(1) rev_rev_ident hd_rev)
  have 1: "dropWhile is_whitespace (ps @ L @ ss) = dropWhile is_whitespace ps @ L @ ss"
    using assms(2) by (simp add: L dropWhile_append3)
  have 2: "dropWhile is_whitespace (rev ss @ rev L @ rev (dropWhile is_whitespace ps))
             = dropWhile is_whitespace (rev ss) @ rev L @ rev (dropWhile is_whitespace ps)"
    using assms(3) k by (simp add: R dropWhile_append3)
  show ?thesis
    by (simp add: trim_def 1 2)
qed

lemma sublist_trim: "sublist (trim a) a"
proof -
  have "prefix (trim a) (dropWhile is_whitespace a)"
    unfolding trim_def
    by (metis rev_rev_ident suffix_dropWhile suffix_to_prefix)
  moreover have "suffix (dropWhile is_whitespace a) a"
    by (rule suffix_dropWhile)
  ultimately show ?thesis
    by (meson prefix_imp_sublist suffix_imp_sublist sublist_order.order_trans)
qed

lemma prefix_strip: "prefix (strip_trailing_slash s) s"
  by (simp add: strip_trailing_slash_def prefix_def) (metis append_butlast_last_id)

lemma includes_trim:
  assumes "L \<noteq> []" "\<not> is_whitespace (hd L)" "\<not> is_whitespace (last L)"
  shows "includes_str (trim a) L \<longleftrightarrow> includes_str a L"
proof
  assume "includes_str (trim a) L"
  then show "includes_str a L"
    unfolding includes_str_def using sublist_trim sublist_order.order_trans by blast
next
  assume "includes_str a L"
  then obtain ps ss where "a = ps @ L @ ss"
    by (auto simp: includes_str_def sublist_def)
  then show "includes_str (trim a) L"
    by (simp add: trim_append_middle [OF assms] includes_str_def)
qed

lemma includes_strip:
  assumes "L \<noteq> []" "last L \<noteq> CHR ''/''"
  shows "includes_str (strip_trailing_slash s) L \<longleftrightarrow> includes_str s L"
proof
  assume "includes_str (strip_trailing_slash s) L"
  then show "includes_str s L"
    unfolding includes_str_def
    using prefix_strip prefix_imp_sublist sublist_order.order_trans by blast
next
  assume "includes_str s L"
  then obtain ps ss where s: "s = ps @ L @ ss"
    by (auto simp: includes_str_def sublist_def)
  show "includes_str (strip_trailing_slash s) L"
  proof (cases "s \<noteq> [] \<and> last s = CHR ''/''")
    case True
    then have "ss \<noteq> []"
      using assms s by auto
    then have "butlast s = ps @ L @ butlast ss"
      using assms(1) by (simp add: s butlast_append)
    then show ?thesis
      using True by (simp add: strip_trailing_slash_def includes_str_def)
  next
    case False
    then show ?thesis
      using \<open>includes_str s L\<close> by (auto simp: strip_trailing_slash_def)
  qed
qed

lemma includes_normalized_localhost:
  "includes_str (strip_trailing_slash (trim a)) ''localhost'' \<longleftrightarrow> includes_str a ''localhost''"
  by (simp add: includes_strip includes_trim is_whitespace_def)

lemma startsWith_strip:
  "startsWith (strip_trailing_slash s) p \<Longrightarrow> startsWith s p"
  unfolding startsWith_def using prefix_strip prefix_order.order_trans by blast

lemma no_localhost_in_root: "\<not> includes_str ''/'' ''localhost''"
  unfolding includes_str_def by code_simp

text \<open>
  C6, as the claim states it, fails: the override \<^verbatim>\<open>/\<close> is set, is not blank, is a
  root-relative path and has no \<^verbatim>\<open>localhost\<close> in it, and the result is \<^verbatim>\<open>/api\<close>, not the
  override. The final slash is removed before the shape is tested, and nothing is left.
\<close>

theorem root_path_counterexample:
  "trim ''/'' \<noteq> [] \<and> startsWith (trim ''/'') ''/'' \<and> \<not> includes_str ''/'' ''localhost''
   \<and> getApiBaseURL (Some ''/'') False = ''/api''
   \<and> getApiBaseURL (Some ''/'') False \<noteq> ''/''
   \<and> getApiBaseURL (Some ''/'') False \<noteq> strip_trailing_slash (trim ''/'')"
  by (simp add: getApiBaseURL_def trim_def is_whitespace_def strip_trailing_slash_def
        no_localhost_in_root startsWith_def)

lemma startsWith_strip_longer:
  assumes "startsWith s p" "s \<noteq> p" "p \<noteq> []"
  shows "startsWith (strip_trailing_slash s) p"
proof -
  from assms(1) obtain r where s: "s = p @ r"
    by (auto simp: startsWith_def prefix_def)
  with assms(2) have r: "r \<noteq> []"
    by auto
  then have "butlast s = p @ butlast r"
    by (simp add: s butlast_append)
  then show ?thesis
    by (simp add: strip_trailing_slash_def startsWith_def s)
qed

lemma bare_marker_falls_back:
  assumes "trim a = ''/'' \<or> trim a = ''http://'' \<or> trim a = ''https://''"
  shows "getApiBaseURL (Some a) p = ''/api''"
proof -
  have a: "a \<noteq> []"
    using assms trim_Nil by auto
  from assms show ?thesis
    using a
    by (auto simp: getApiBaseURL_def Let_def strip_trailing_slash_def startsWith_def)
qed

text \<open>
  C6, amended. The base URL is \<^verbatim>\<open>/api\<close> when no override is configured or the override is
  blank; \<^verbatim>\<open>/api\<close> in a production build when the override contains \<^verbatim>\<open>localhost\<close>;
  \<^verbatim>\<open>/api\<close> when the override, trimmed, starts with none of \<^verbatim>\<open>http://\<close>, \<^verbatim>\<open>https://\<close> and
  \<^verbatim>\<open>/\<close>, or is exactly one of these three. Every other override is preferred: the result is
  the override, trimmed and without one final slash. There is no other result.
\<close>

theorem api_base_url_resolution:
  "getApiBaseURL None p = ''/api''
   \<and> (trim a = [] \<longrightarrow> getApiBaseURL (Some a) p = ''/api'')
   \<and> (p \<and> includes_str a ''localhost'' \<longrightarrow> getApiBaseURL (Some a) p = ''/api'')
   \<and> (\<not> startsWith (trim a) ''http://'' \<and> \<not> startsWith (trim a) ''https://''
        \<and> \<not> startsWith (trim a) ''/'' \<longrightarrow> getApiBaseURL (Some a) p = ''/api'')
   \<and> (trim a = ''/'' \<or> trim a = ''http://'' \<or> trim a = ''https://''
        \<longrightarrow> getApiBaseURL (Some a) p = ''/api'')
   \<and> (\<not> (p \<and> includes_str a ''localhost'')
        \<and> (startsWith (trim a) ''http://'' \<or> startsWith (trim a) ''https://''
             \<or> startsWith (trim a) ''/'')
        \<and> trim a \<noteq> ''/'' \<and> trim a \<noteq> ''http://'' \<and> trim a \<noteq> ''https://''
      \<longrightarrow> getApiBaseURL (Some a) p = strip_trailing_slash (trim a))
   \<and> (trim a \<noteq> [] \<and> \<not> (p \<and> includes_str a ''localhost'')
        \<and> (startsWith (strip_trailing_slash (trim a)) ''http://''
             \<or> startsWith (strip_trailing_slash (trim a)) ''https://''
             \<or> startsWith (strip_trailing_slash (trim a)) ''/'')
      \<longrightarrow> getApiBaseURL (Some a) p = strip_trailing_slash (trim a))
   \<and> (getApiBaseURL (Some a) p = ''/api''
        \<or> getApiBaseURL (Some a) p = strip_trailing_slash (trim a))"
proof -
  have ne: "trim a \<noteq> [] \<Longrightarrow> a \<noteq> []"
    using trim_Nil by auto
  have shaped: "startsWith (strip_trailing_slash (trim a)) x \<Longrightarrow> startsWith (trim a) x" for x
    by (rule startsWith_strip)
  have old: "getApiBaseURL None p = ''/api''
   \<and> (trim a = [] \<longrightarrow> getApiBaseURL (Some a) p = ''/api'')
   \<and> (p \<and> includes_str a ''localhost'' \<longrightarrow> getApiBaseURL (Some a) p = ''/api'')
   \<and> (\<not> startsWith (trim a) ''http://'' \<and> \<not> startsWith (trim a) ''https://''
        \<and> \<not> startsWith (trim a) ''/'' \<longrightarrow> getApiBaseURL (Some a) p = ''/api'')
   \<and> (trim a \<noteq> [] \<and> \<not> (p \<and> includes_str a ''localhost'')
        \<and> (startsWith (strip_trailing_slash (trim a)) ''http://''
             \<or> startsWith (strip_trailing_slash (trim a)) ''https://''
             \<or> startsWith (strip_trailing_slash (trim a)) ''/'')
      \<longrightarrow> getApiBaseURL (Some a) p = strip_trailing_slash (trim a))
   \<and> (getApiBaseURL (Some a) p = ''/api''
        \<or> getApiBaseURL (Some a) p = strip_trailing_slash (trim a))"
    using ne shaped [of "''http://''"] shaped [of "''https://''"] shaped [of "''/''"]
    by (auto simp: getApiBaseURL_def Let_def includes_normalized_localhost)
  have bare: "trim a = ''/'' \<or> trim a = ''http://'' \<or> trim a = ''https://''
        \<longrightarrow> getApiBaseURL (Some a) p = ''/api''"
    using bare_marker_falls_back by blast
  have preferred: "\<not> (p \<and> includes_str a ''localhost'')
        \<and> (startsWith (trim a) ''http://'' \<or> startsWith (trim a) ''https://''
             \<or> startsWith (trim a) ''/'')
        \<and> trim a \<noteq> ''/'' \<and> trim a \<noteq> ''http://'' \<and> trim a \<noteq> ''https://''
      \<longrightarrow> getApiBaseURL (Some a) p = strip_trailing_slash (trim a)"
  proof (intro impI, elim conjE)
    assume nl: "\<not> (p \<and> includes_str a ''localhost'')"
      and sh: "startsWith (trim a) ''http://'' \<or> startsWith (trim a) ''https://''
                \<or> startsWith (trim a) ''/''"
      and n1: "trim a \<noteq> ''/''" and n2: "trim a \<noteq> ''http://''" and n3: "trim a \<noteq> ''https://''"
    from sh have t: "trim a \<noteq> []"
      by (auto simp: startsWith_def)
    from sh n1 n2 n3
    have "startsWith (strip_trailing_slash (trim a)) ''http://''
          \<or> startsWith (strip_trailing_slash (trim a)) ''https://''
          \<or> startsWith (strip_trailing_slash (trim a)) ''/''"
      using startsWith_strip_longer [of "trim a"] by blast
    with old t nl show "getApiBaseURL (Some a) p = strip_trailing_slash (trim a)"
      by blast
  qed
  from old bare preferred show ?thesis
    by blast
qed

lemma normalized_configured_url:
  "strip_trailing_slash (trim configured_url) = ''https://notes.example.com/api''"
  by (simp add: configured_url_def trim_def is_whitespace_def strip_trailing_slash_def)

lemma no_localhost_configured_url: "\<not> includes_str configured_url ''localhost''"
  unfolding configured_url_def includes_str_def by code_simp

lemma localhost_dev_url: "includes_str ''http://localhost:8000'' ''localhost''"
  unfolding includes_str_def by code_simp

theorem api_base_url_resolution_witness:
  "getApiBaseURL (Some configured_url) True = ''https://notes.example.com/api''
   \<and> getApiBaseURL (Some ''http://localhost:8000'') True = ''/api''
   \<and> getApiBaseURL (Some ''   '') False = ''/api''
   \<and> getApiBaseURL (Some ''api.example.com'') False = ''/api''
   \<and> getApiBaseURL (Some ''https://'') True = ''/api''"
proof -
  have used: "trim configured_url \<noteq> [] \<and> \<not> (True \<and> includes_str configured_url ''localhost'')
      \<and> (startsWith (strip_trailing_slash (trim configured_url)) ''http://''
           \<or> startsWith (strip_trailing_slash (trim configured_url)) ''https://''
           \<or> startsWith (strip_trailing_slash (trim configured_url)) ''/'')"
    using no_localhost_configured_url
    by (simp add: normalized_configured_url startsWith_def)
       (simp add: configured_url_def trim_def is_whitespace_def)
  from used api_base_url_resolution [where a = configured_url and p = True]
  have 1: "getApiBaseURL (Some configured_url) True = ''https://notes.example.com/api''"
    by (simp add: normalized_configured_url)
  from localhost_dev_url api_base_url_resolution [where a = "''http://localhost:8000''" and p = True]
  have 2: "getApiBaseURL (Some ''http://localhost:8000'') True = ''/api''"
    by simp
  have blank: "trim ''   '' = []"
    by (simp add: trim_def is_whitespace_def)
  from blank api_base_url_resolution [where a = "''   ''" and p = False]
  have 3: "getApiBaseURL (Some ''   '') False = ''/api''"
    by simp
  have bare: "\<not> startsWith (trim ''api.example.com'') ''http://''
      \<and> \<not> startsWith (trim ''api.example.com'') ''https://''
      \<and> \<not> startsWith (trim ''api.example.com'') ''/''"
    by (simp add: trim_def is_whitespace_def startsWith_def)
  from bare api_base_url_resolution [where a = "''api.example.com''" and p = False]
  have 4: "getApiBaseURL (Some ''api.example.com'') False = ''/api''"
    by simp
  have lone: "trim ''https://'' = ''https://''"
    by (simp add: trim_def is_whitespace_def)
  from lone api_base_url_resolution [where a = "''https://''" and p = True]
  have 5: "getApiBaseURL (Some ''https://'') True = ''/api''"
    by simp
  from 1 2 3 4 5 show ?thesis
    by simp
qed

end
